theory Spec2Isabelle
  imports Complex_Main
begin

section \<open>Strings, numbers and JSON values of the runtime\<close>

text \<open>
  A JavaScript string is a sequence of UTF-16 code units; a code unit is modelled as a
  natural number, so every text the program can receive is covered (also text outside
  ASCII). \<open>str\<close> embeds a literal of the source.
\<close>

type_synonym js_string = "nat list"

definition str :: "string \<Rightarrow> js_string" where
  "str s = map of_char s"

text \<open>
  A JavaScript number is modelled as a real, or \<open>NaN\<close>: the rounding of IEEE doubles and
  the two infinities are not modelled.
\<close>

datatype js_number = NaN | Num real

text \<open>\<open>Math.min(a, b)\<close>: NaN when an argument is NaN.\<close>

fun Math_min :: "js_number \<Rightarrow> js_number \<Rightarrow> js_number" where
  "Math_min (Num a) (Num b) = Num (min a b)"
| "Math_min _ _ = NaN"

text \<open>The binary \<open>*\<close> of the language on numbers.\<close>

fun js_times :: "js_number \<Rightarrow> js_number \<Rightarrow> js_number" where
  "js_times (Num a) (Num b) = Num (a * b)"
| "js_times _ _ = NaN"

text \<open>A thrown \<open>Error\<close> object that is not an LLMError: its \<open>name\<close> and \<open>message\<close>.\<close>

datatype js_error = JsError (err_name: js_string) (err_message: js_string)

text \<open>The decimal rendering of a non-negative integer in a template literal.\<close>

fun decimal :: "nat \<Rightarrow> js_string" where
  "decimal n = (if n < 10 then [48 + n] else decimal (n div 10) @ [48 + n mod 10])"

declare decimal.simps [simp del]

section \<open>src/llm/errors.ts\<close>

datatype LLMErrorCode =
  NETWORK_ERROR | API_ERROR | TIMEOUT | INVALID_RESPONSE | AUTHENTICATION_ERROR | RATE_LIMIT

text \<open>
  \<open>details\<close> is a \<open>Record<string, unknown>\<close>: the keys the client writes
  (\<open>retryAfter\<close>, \<open>originalError\<close>, \<open>content\<close>, \<open>error\<close>) all hold strings.
  \<open>None\<close> is an LLMError constructed without details.
\<close>

record LLMError =
  message :: js_string
  code :: LLMErrorCode
  statusCode :: "nat option"
  details :: "(string \<times> js_string) list option"

section \<open>src/llm/types.ts\<close>

text \<open>
  The parts of an LLMResponse that the client reads. The body of a response is cast to
  this type unchecked, and the client guards against absent \<open>choices\<close>, an absent
  \<open>message\<close> and absent \<open>content\<close>, so these three are optional here.
\<close>

record ChatMessage =
  role :: js_string
  content :: "js_string option"

record Choice =
  index :: nat
  choice_message :: "ChatMessage option"

record LLMResponse =
  choices :: "Choice list option"

record RetryConfig =
  maxRetries :: nat
  initialDelay :: real
  maxDelay :: real
  backoffFactor :: real

record LLMConfig =
  baseURL :: js_string
  apiKey :: "js_string option"
  model :: js_string
  temperature :: "real option"
  maxTokens :: "nat option"
  timeout :: "nat option"
  retries :: "RetryConfig option"

section \<open>src/llm/client.ts: the completion client\<close>

record LLMClient =
  client_baseURL :: js_string
  client_apiKey :: "js_string option"
  client_model :: js_string
  client_temperature :: real
  client_maxTokens :: nat
  client_timeout :: nat
  retryConfig :: RetryConfig

definition default_retries :: RetryConfig where
  "default_retries =
     \<lparr>maxRetries = 3, initialDelay = 1000, maxDelay = 10000, backoffFactor = 2\<rparr>"

text \<open>The constructor: defaults first, the caller's configuration over them.\<close>

definition new_LLMClient :: "LLMConfig \<Rightarrow> LLMClient" where
  "new_LLMClient config =
     \<lparr>client_baseURL = baseURL config,
      client_apiKey = apiKey config,
      client_model = model config,
      client_temperature = (case temperature config of None \<Rightarrow> 0 | Some t \<Rightarrow> t),
      client_maxTokens = (case maxTokens config of None \<Rightarrow> 2000 | Some m \<Rightarrow> m),
      client_timeout = (case timeout config of None \<Rightarrow> 120000 | Some t \<Rightarrow> t),
      retryConfig = (case retries config of None \<Rightarrow> default_retries | Some r \<Rightarrow> r)\<rparr>"

text \<open>
  What \<open>fetch\<close> gives one call of \<open>chat\<close>. The promise is rejected with an error (named
  \<open>AbortError\<close> when the timeout's controller aborted the request), or resolved with
  a response. Of a response the client reads the status (\<open>ok\<close> is a status from 200 to
  299), the status text, the \<open>Retry-After\<close> header, and the body through \<open>json()\<close>:
  \<open>body_error_message\<close> is \<open>error.message\<close> of the body of an error response when the
  body is JSON and holds a non-empty string there, and \<open>json_body\<close> is what \<open>json()\<close>
  gives on a 2xx response, a thrown error when the body is not JSON.
\<close>

record http_response =
  status :: nat
  statusText :: js_string
  header_Retry_After :: "js_string option"
  body_error_message :: "js_string option"
  json_body :: "js_error + LLMResponse"

datatype fetch_outcome = Rejected js_error | Resolved http_response

definition ok :: "http_response \<Rightarrow> bool" where
  "ok response = (200 \<le> status response \<and> status response \<le> 299)"

definition handleErrorResponse :: "http_response \<Rightarrow> LLMError" where
  "handleErrorResponse response =
     (let errorMessage =
            (case body_error_message response of
               Some m \<Rightarrow> m
             | None \<Rightarrow> str ''API error: '' @ decimal (status response) @ str '' ''
                         @ statusText response);
          errorCode =
            (if status response = 401 \<or> status response = 403 then AUTHENTICATION_ERROR
             else if status response = 429 then RATE_LIMIT
             else API_ERROR);
          details =
            (if status response = 429 then
               (case header_Retry_After response of
                  Some retryAfter \<Rightarrow> if retryAfter \<noteq> [] then [(''retryAfter'', retryAfter)] else []
                | None \<Rightarrow> [])
             else [])
      in \<lparr>message = errorMessage, code = errorCode, statusCode = Some (status response),
          details = Some details\<rparr>)"

text \<open>The \<open>catch\<close> block of \<open>chat\<close>, for a thrown value that is not an LLMError.\<close>

definition chat_catch :: "LLMClient \<Rightarrow> js_error \<Rightarrow> LLMError" where
  "chat_catch client e =
     (if err_name e = str ''AbortError'' then
        \<lparr>message = str ''Request timeout after '' @ decimal (client_timeout client) @ str ''ms'',
         code = TIMEOUT, statusCode = None, details = None\<rparr>
      else
        \<lparr>message = str ''Network error: '' @ err_message e,
         code = NETWORK_ERROR, statusCode = None,
         details = Some [(''originalError'', err_message e)]\<rparr>)"

text \<open>
  One call of \<open>chat\<close>, given what \<open>fetch\<close> does: \<open>Inl\<close> is the LLMError it throws. The
  LLMError of \<open>handleErrorResponse\<close> is rethrown by the \<open>catch\<close> block as it is.
\<close>

definition chat :: "LLMClient \<Rightarrow> fetch_outcome \<Rightarrow> LLMError + LLMResponse" where
  "chat client outcome =
     (case outcome of
        Rejected e \<Rightarrow> Inl (chat_catch client e)
      | Resolved response \<Rightarrow>
          if \<not> ok response then Inl (handleErrorResponse response)
          else (case json_body response of
                  Inl e \<Rightarrow> Inl (chat_catch client e)
                | Inr data \<Rightarrow> Inr data))"

definition retryableCodes :: "LLMErrorCode list" where
  "retryableCodes = [NETWORK_ERROR, TIMEOUT, RATE_LIMIT, API_ERROR]"

definition isRetryableError :: "LLMError \<Rightarrow> bool" where
  "isRetryableError error = (code error \<in> set retryableCodes)"

text \<open>
  \<open>error.details?.retryAfter\<close> as a condition: the header's text when the key is there
  and its string is truthy (not empty).
\<close>

definition details_retryAfter :: "LLMError \<Rightarrow> js_string option" where
  "details_retryAfter error =
     (case details error of
        None \<Rightarrow> None
      | Some d \<Rightarrow>
          (case map_of d ''retryAfter'' of
             None \<Rightarrow> None
           | Some retryAfter \<Rightarrow> if retryAfter \<noteq> [] then Some retryAfter else None))"

text \<open>
  \<open>calculateDelay\<close>. \<open>Number\<close> is the runtime's conversion of a string to a number and
  \<open>random\<close> the value that \<open>Math.random()\<close> returns in this call.
\<close>

definition calculateDelay ::
  "(js_string \<Rightarrow> js_number) \<Rightarrow> LLMClient \<Rightarrow> real \<Rightarrow> nat \<Rightarrow> LLMError \<Rightarrow> js_number" where
  "calculateDelay Number client random attempt error =
     (case (if code error = RATE_LIMIT then details_retryAfter error else None) of
        Some ra \<Rightarrow>
          (let retryAfter = js_times (Number ra) (Num 1000)
           in Math_min retryAfter (Num (maxDelay (retryConfig client))))
      | None \<Rightarrow>
          (let exponentialDelay =
                 initialDelay (retryConfig client) * backoffFactor (retryConfig client) ^ attempt;
               jitter = exponentialDelay * 0.25 * random;
               delayWithJitter = exponentialDelay + jitter
           in Math_min (Num delayWithJitter) (Num (maxDelay (retryConfig client)))))"

text \<open>
  \<open>chatWithRetry\<close> with what it does made visible: the calls of \<open>chat\<close> and the waits of
  \<open>sleep\<close>, in order. \<open>fetches n\<close> is what \<open>fetch\<close> does in the call of attempt \<open>n\<close> and
  \<open>randoms n\<close> what \<open>Math.random()\<close> returns there. The thrown value is \<open>lastError\<close>,
  which is \<open>null\<close> (\<open>None\<close>) before the first failure.
\<close>

datatype event = Attempt nat | Backoff js_number

function chatWithRetry_loop ::
  "(js_string \<Rightarrow> js_number) \<Rightarrow> LLMClient \<Rightarrow> (nat \<Rightarrow> fetch_outcome) \<Rightarrow> (nat \<Rightarrow> real) \<Rightarrow>
   nat \<Rightarrow> LLMError option \<Rightarrow> event list \<times> (LLMError option + LLMResponse)" where
  "chatWithRetry_loop Number client fetches randoms attempt lastError =
     (if attempt \<le> maxRetries (retryConfig client) then
        (case chat client (fetches attempt) of
           Inr response \<Rightarrow> ([Attempt attempt], Inr response)
         | Inl error \<Rightarrow>
             if \<not> isRetryableError error then ([Attempt attempt], Inl (Some error))
             else if attempt = maxRetries (retryConfig client) then
               ([Attempt attempt], Inl (Some error))
             else
               (let delay = calculateDelay Number client (randoms attempt) attempt error;
                    rest = chatWithRetry_loop Number client fetches randoms (attempt + 1)
                             (Some error)
                in (Attempt attempt # Backoff delay # fst rest, snd rest)))
      else ([], Inl lastError))"
  by pat_completeness auto
termination
  by (relation "measure (\<lambda>(Number, client, fetches, randoms, attempt, lastError).
        maxRetries (retryConfig client) + 1 - attempt)") auto

declare chatWithRetry_loop.simps [simp del]

definition chatWithRetry ::
  "(js_string \<Rightarrow> js_number) \<Rightarrow> LLMClient \<Rightarrow> (nat \<Rightarrow> fetch_outcome) \<Rightarrow> (nat \<Rightarrow> real) \<Rightarrow>
   event list \<times> (LLMError option + LLMResponse)" where
  "chatWithRetry Number client fetches randoms =
     chatWithRetry_loop Number client fetches randoms 0 None"

section \<open>src/llm/client.ts: the response contract parser\<close>

datatype json =
  JNull | JBool bool | JNumber real | JString js_string
| JArray "json list" | JObject "(js_string \<times> json) list"

text \<open>
  The white space of \<open>String.prototype.trim\<close> and of \<open>\s\<close> in a regular expression (the
  same set): tab, line feed, vertical tab, form feed, carriage return, space, no-break
  space, U+1680, U+2000 to U+200A, U+2028, U+2029, U+202F, U+205F, U+3000 and U+FEFF.
\<close>

definition is_space :: "nat \<Rightarrow> bool" where
  "is_space c =
     ((9 \<le> c \<and> c \<le> 13) \<or> c = 32 \<or> c = 160 \<or> c = 5760 \<or> (8192 \<le> c \<and> c \<le> 8202)
      \<or> c = 8232 \<or> c = 8233 \<or> c = 8239 \<or> c = 8287 \<or> c = 12288 \<or> c = 65279)"

definition trimStart :: "js_string \<Rightarrow> js_string" where
  "trimStart s = dropWhile is_space s"

definition trimEnd :: "js_string \<Rightarrow> js_string" where
  "trimEnd s = rev (dropWhile is_space (rev s))"

definition trim :: "js_string \<Rightarrow> js_string" where
  "trim s = trimEnd (trimStart s)"

definition startsWith :: "js_string \<Rightarrow> js_string \<Rightarrow> bool" where
  "startsWith s p = (take (length p) s = p)"

definition endsWith :: "js_string \<Rightarrow> js_string \<Rightarrow> bool" where
  "endsWith s p = (length p \<le> length s \<and> drop (length s - length p) s = p)"

text \<open>
  \<open>s.replace(/^p\s*/, '')\<close> for a literal \<open>p\<close>: a leading \<open>p\<close> goes, with all white space
  after it.
\<close>

definition replace_leading :: "js_string \<Rightarrow> js_string \<Rightarrow> js_string" where
  "replace_leading p s =
     (if startsWith s p then dropWhile is_space (drop (length p) s) else s)"

text \<open>
  \<open>s.replace(/\s*```$/, '')\<close>: without the \<open>m\<close> flag \<open>$\<close> is the end of the text, so the
  only match ends there, and the leftmost one starts where the white space before the
  three backticks starts.
\<close>

definition replace_trailing_fence :: "js_string \<Rightarrow> js_string" where
  "replace_trailing_fence s =
     (if endsWith s (str ''```'') then trimEnd (take (length s - 3) s) else s)"

text \<open>The two branches of "Remove markdown code blocks if present".\<close>

definition stripCodeFence :: "js_string \<Rightarrow> js_string" where
  "stripCodeFence s =
     (if startsWith s (str ''```json'') then
        replace_trailing_fence (replace_leading (str ''```json'') s)
      else if startsWith s (str ''```'') then
        replace_trailing_fence (replace_leading (str ''```'') s)
      else s)"

record ExtractionResponse =
  data :: json
  confidence :: real
  confidenceByField :: json

text \<open>
  \<open>parsed.key\<close> for a decoded value other than \<open>null\<close>: \<open>None\<close> is \<open>undefined\<close>. Only an
  object has the three keys that the parser reads.
\<close>

fun property :: "json \<Rightarrow> js_string \<Rightarrow> json option" where
  "property (JObject members) key = map_of members key"
| "property _ key = None"

text \<open>\<open>v && typeof v === 'object'\<close>: an object or an array (\<open>null\<close> is falsy).\<close>

fun is_object :: "json option \<Rightarrow> bool" where
  "is_object (Some (JObject _)) = True"
| "is_object (Some (JArray _)) = True"
| "is_object _ = False"


definition Error :: "string \<Rightarrow> js_error" where
  "Error m = JsError (str ''Error'') (str m)"

text \<open>
  The checks in the \<open>try\<close> block after \<open>JSON.parse\<close>. Reading \<open>parsed.data\<close> of \<open>null\<close>
  throws the runtime's TypeError, \<open>nullError key\<close>.
\<close>

definition check_parsed :: "(js_string \<Rightarrow> js_error) \<Rightarrow> json \<Rightarrow> js_error + ExtractionResponse" where
  "check_parsed nullError parsed =
     (if parsed = JNull then Inl (nullError (str ''data''))
      else
        (case property parsed (str ''data'') of
           None \<Rightarrow> Inl (Error ''Response missing data object'')
         | Some d \<Rightarrow>
             if \<not> is_object (Some d) then Inl (Error ''Response missing data object'')
             else
               (case property parsed (str ''confidence'') of
                  Some (JNumber c) \<Rightarrow>
                    (case property parsed (str ''confidenceByField'') of
                       None \<Rightarrow> Inl (Error ''Response missing confidenceByField object'')
                     | Some f \<Rightarrow>
                         if \<not> is_object (Some f) then
                           Inl (Error ''Response missing confidenceByField object'')
                         else Inr \<lparr>data = d, confidence = c, confidenceByField = f\<rparr>)
                | _ \<Rightarrow> Inl (Error ''Response missing confidence score''))))"

text \<open>The LLMError that the \<open>catch\<close> block builds from an error thrown in the \<open>try\<close> block.\<close>

definition parse_failure :: "js_string \<Rightarrow> js_error \<Rightarrow> LLMError" where
  "parse_failure stripped e =
     \<lparr>message = str ''Failed to parse LLM response: '' @ err_message e,
      code = INVALID_RESPONSE, statusCode = None,
      details = Some [(''content'', stripped), (''error'', err_message e)]\<rparr>"

definition no_choices :: LLMError where
  "no_choices =
     \<lparr>message = str ''No choices in LLM response'', code = INVALID_RESPONSE,
      statusCode = None, details = None\<rparr>"

definition no_content :: LLMError where
  "no_content =
     \<lparr>message = str ''No content in LLM response'', code = INVALID_RESPONSE,
      statusCode = None, details = None\<rparr>"

text \<open>
  \<open>parseExtractionResponse\<close>. \<open>parse\<close> is the runtime's \<open>JSON.parse\<close> (\<open>Inl\<close> is the
  SyntaxError it throws) and \<open>nullError\<close> the TypeError of reading a property of
  \<open>null\<close>. An empty array of choices, an absent message and absent or empty content
  are rejected before anything is decoded.
\<close>

definition parseExtractionResponse ::
  "(js_string \<Rightarrow> js_error + json) \<Rightarrow> (js_string \<Rightarrow> js_error) \<Rightarrow> LLMResponse \<Rightarrow>
   LLMError + ExtractionResponse" where
  "parseExtractionResponse parse nullError response =
     (case choices response of
        None \<Rightarrow> Inl no_choices
      | Some [] \<Rightarrow> Inl no_choices
      | Some (choice # _) \<Rightarrow>
          (case choice_message choice of
             None \<Rightarrow> Inl no_content
           | Some msg \<Rightarrow>
               (case content msg of
                  None \<Rightarrow> Inl no_content
                | Some text \<Rightarrow>
                    if text = [] then Inl no_content
                    else
                      (let stripped = stripCodeFence (trim text)
                       in case (case parse stripped of
                                  Inl e \<Rightarrow> Inl e
                                | Inr parsed \<Rightarrow> check_parsed nullError parsed) of
                            Inl e \<Rightarrow> Inl (parse_failure stripped e)
                          | Inr r \<Rightarrow> Inr r))))"

text \<open>An LLMResponse whose first choice carries the assistant message \<open>text\<close>.\<close>

definition assistant_reply :: "js_string \<Rightarrow> LLMResponse" where
  "assistant_reply text =
     \<lparr>choices = Some [\<lparr>index = 0,
        choice_message = Some \<lparr>role = str ''assistant'', content = Some text\<rparr>\<rparr>]\<rparr>"

section \<open>src/schemas/types.ts\<close>


record SchemaMetadata =
  meta_name :: "js_string option"
  meta_version :: "js_string option"
  meta_description :: "js_string option"

record ConfidenceConfig =
  threshold :: real
  failOnLowConfidence :: bool


section \<open>src/llm/prompt-builder.ts\<close>









definition buildUserPrompt :: "js_string \<Rightarrow> js_string" where
  "buildUserPrompt input = str ''Extract data from the following text:\<newline>\<newline>'' @ input"

section \<open>src/core/pipeline.ts: the threshold decision\<close>



section \<open>src/schemas/validator.ts and src/schemas/loader.ts\<close>

text \<open>
  Modelled from the spec: the validator, \<open>src/schemas/validator.ts\<close>, with its errors
  (\<open>src/schemas/errors.ts\<close>), is not among the sources. Section 4.1 of the
  specification: \<open>validate(raw)\<close> "fails with a SchemaError when: \<open>fields\<close>
  missing/empty; a field lacks \<open>type\<close>; \<open>enum\<close> present but empty; \<open>min > max\<close>;
  \<open>pattern\<close> not a valid regular expression; malformed \<open>metadata\<close>."

  The raw object is what a caller hands to the loader: every part that validation
  asks for may be absent, and the metadata is any JSON value. A SchemaError says what
  is wrong, and for a field's problem the name of the field; \<open>INVALID_JSON\<close> is the
  code that the loader gives to a text that is not JSON. Which patterns the runtime's
  \<open>RegExp\<close> accepts (\<open>valid_pattern\<close>) and which metadata is malformed (\<open>malformed\<close>)
  are parameters: the specification says no more about them. \<open>None\<close> is a validation
  that does not throw.
\<close>

record RawField =
  raw_type :: "js_string option"
  raw_optional :: bool
  raw_description :: "js_string option"
  raw_enum :: "js_string list option"
  raw_min :: "real option"
  raw_max :: "real option"
  raw_pattern :: "js_string option"

record RawSchema =
  raw_fields :: "(js_string \<times> RawField) list option"
  raw_metadata :: "json option"
  raw_confidence :: "ConfidenceConfig option"

datatype SchemaError =
  INVALID_JSON js_string
| FieldsMissing | FieldsEmpty
| TypeMissing js_string | EnumEmpty js_string | MinAboveMax js_string
| PatternInvalid js_string | MetadataMalformed

definition field_problem ::
  "(js_string \<Rightarrow> bool) \<Rightarrow> js_string \<times> RawField \<Rightarrow> SchemaError option" where
  "field_problem valid_pattern entry =
     (case entry of
        (name, f) \<Rightarrow>
          if raw_type f = None then Some (TypeMissing name)
          else if raw_enum f = Some [] then Some (EnumEmpty name)
          else if (case (raw_min f, raw_max f) of (Some lo, Some hi) \<Rightarrow> lo > hi | _ \<Rightarrow> False)
            then Some (MinAboveMax name)
          else if (case raw_pattern f of Some p \<Rightarrow> \<not> valid_pattern p | None \<Rightarrow> False)
            then Some (PatternInvalid name)
          else None)"

fun first_problem ::
  "(js_string \<Rightarrow> bool) \<Rightarrow> (js_string \<times> RawField) list \<Rightarrow> SchemaError option" where
  "first_problem valid_pattern [] = None"
| "first_problem valid_pattern (entry # entries) =
     (case field_problem valid_pattern entry of
        Some e \<Rightarrow> Some e
      | None \<Rightarrow> first_problem valid_pattern entries)"

definition validateSchema ::
  "(js_string \<Rightarrow> bool) \<Rightarrow> (json \<Rightarrow> bool) \<Rightarrow> RawSchema \<Rightarrow> SchemaError option" where
  "validateSchema valid_pattern malformed raw =
     (case raw_fields raw of
        None \<Rightarrow> Some FieldsMissing
      | Some [] \<Rightarrow> Some FieldsEmpty
      | Some entries \<Rightarrow>
          (case first_problem valid_pattern entries of
             Some e \<Rightarrow> Some e
           | None \<Rightarrow>
               (case raw_metadata raw of
                  Some m \<Rightarrow> if malformed m then Some MetadataMalformed else None
                | None \<Rightarrow> None)))"

text \<open>
  \<open>loadSchemaFromObject\<close> and \<open>parseSchema\<close> of the loader, which is among the sources:
  validate, then return the object itself. \<open>parse\<close> is \<open>JSON.parse\<close>, its value read as
  a raw schema.
\<close>

definition loadSchemaFromObject ::
  "(js_string \<Rightarrow> bool) \<Rightarrow> (json \<Rightarrow> bool) \<Rightarrow> RawSchema \<Rightarrow> SchemaError + RawSchema" where
  "loadSchemaFromObject valid_pattern malformed obj =
     (case validateSchema valid_pattern malformed obj of
        Some e \<Rightarrow> Inl e
      | None \<Rightarrow> Inr obj)"

definition parseSchema ::
  "(js_string \<Rightarrow> js_error + RawSchema) \<Rightarrow> (js_string \<Rightarrow> bool) \<Rightarrow> (json \<Rightarrow> bool) \<Rightarrow>
   js_string \<Rightarrow> SchemaError + RawSchema" where
  "parseSchema parse valid_pattern malformed jsonString =
     (case parse jsonString of
        Inl e \<Rightarrow> Inl (INVALID_JSON (str ''Invalid JSON: '' @ err_message e))
      | Inr schema \<Rightarrow>
          (case validateSchema valid_pattern malformed schema of
             Some e \<Rightarrow> Inl e
           | None \<Rightarrow> Inr schema))"

text \<open>The conditions of section 4.1, for one field and for the raw object.\<close>

definition field_defect :: "(js_string \<Rightarrow> bool) \<Rightarrow> RawField \<Rightarrow> bool" where
  "field_defect valid_pattern f =
     (raw_type f = None
      \<or> raw_enum f = Some []
      \<or> (\<exists>lo hi. raw_min f = Some lo \<and> raw_max f = Some hi \<and> lo > hi)
      \<or> (\<exists>p. raw_pattern f = Some p \<and> \<not> valid_pattern p))"

section \<open>The runtime's functions at concrete inputs\<close>

text \<open>
  The theorems below hold for every \<open>JSON.parse\<close>, \<open>Number\<close> and TypeError text that
  the functions above are given. To run the program on a concrete reply, this is
  \<open>JSON.parse\<close> as ECMA-404 and ECMA-262 define it: white space is space, tab, line
  feed and carriage return; a number has no leading zero and digits after a point or
  an exponent mark; a string has no raw control character and the escapes of the
  grammar; of two members with one key the later value stays, in the place of the
  first. The members of an object are kept in the order of the text. The recursion runs
  on fuel, a list that loses one element at each call: \<open>JSON_parse\<close> gives it twice
  the length of the text and one, and the function is total. The message
  of the SyntaxError is the engine's own: a fixed text stands for it.
\<close>

definition json_space :: "nat \<Rightarrow> bool" where
  "json_space c = (c = 32 \<or> c = 9 \<or> c = 10 \<or> c = 13)"

definition is_digit :: "nat \<Rightarrow> bool" where
  "is_digit c = (48 \<le> c \<and> c \<le> 57)"

definition hex_digit :: "nat \<Rightarrow> nat option" where
  "hex_digit c =
     (if 48 \<le> c \<and> c \<le> 57 then Some (c - 48)
      else if 97 \<le> c \<and> c \<le> 102 then Some (c - 87)
      else if 65 \<le> c \<and> c \<le> 70 then Some (c - 55)
      else None)"

definition escape_char :: "nat \<Rightarrow> nat option" where
  "escape_char e =
     (if e = 34 \<or> e = 92 \<or> e = 47 then Some e
      else if e = 98 then Some 8
      else if e = 102 then Some 12
      else if e = 110 then Some 10
      else if e = 114 then Some 13
      else if e = 116 then Some 9
      else None)"

definition cons_char :: "nat \<Rightarrow> (js_string \<times> js_string) option \<Rightarrow> (js_string \<times> js_string) option" where
  "cons_char c r = map_option (\<lambda>(s, rest). (c # s, rest)) r"

fun string_chars :: "js_string \<Rightarrow> (js_string \<times> js_string) option" where
  "string_chars [] = None"
| "string_chars (c # cs) =
     (if c = 34 then Some ([], cs)
      else if c < 32 then None
      else if c = 92 then
        (case cs of
           [] \<Rightarrow> None
         | e # cs1 \<Rightarrow>
             if e = 117 then
               (case cs1 of
                  h1 # h2 # h3 # h4 # cs2 \<Rightarrow>
                    (case (hex_digit h1, hex_digit h2, hex_digit h3, hex_digit h4) of
                       (Some a, Some b, Some c, Some d) \<Rightarrow>
                         cons_char (((a * 16 + b) * 16 + c) * 16 + d) (string_chars cs2)
                     | _ \<Rightarrow> None)
                | _ \<Rightarrow> None)
             else
               (case escape_char e of
                  None \<Rightarrow> None
                | Some d \<Rightarrow> cons_char d (string_chars cs1)))
      else cons_char c (string_chars cs))"

text \<open>
  A run of decimal digits: its value (after \<open>acc\<close>), how many there are (after \<open>n\<close>)
  and the text behind it.
\<close>

fun take_digits :: "nat \<Rightarrow> nat \<Rightarrow> js_string \<Rightarrow> nat \<times> nat \<times> js_string" where
  "take_digits acc n [] = (acc, n, [])"
| "take_digits acc n (c # cs) =
     (if is_digit c then take_digits (acc * 10 + (c - 48)) (Suc n) cs else (acc, n, c # cs))"

text \<open>The integer part: a zero alone, or digits that do not start with a zero.\<close>

definition number_int :: "js_string \<Rightarrow> (nat \<times> js_string) option" where
  "number_int cs =
     (case cs of
        [] \<Rightarrow> None
      | c # r \<Rightarrow>
          if c = 48 then Some (0, r)
          else if is_digit c then
            (case take_digits (c - 48) 1 r of (v, n, r1) \<Rightarrow> Some (v, r1))
          else None)"

text \<open>The fraction: a point and at least one digit, or nothing.\<close>

definition number_frac :: "js_string \<Rightarrow> (real \<times> js_string) option" where
  "number_frac cs =
     (case cs of
        [] \<Rightarrow> Some (0, [])
      | c # r \<Rightarrow>
          if c = 46 then
            (case take_digits 0 0 r of
               (v, n, r1) \<Rightarrow> if n = 0 then None else Some (real v / 10 ^ n, r1))
          else Some (0, c # r))"

text \<open>
  The exponent: \<open>e\<close> or \<open>E\<close>, a sign or none, and at least one digit, or nothing. The
  result says whether the sign is minus, and gives the digits' value.
\<close>

definition number_exp :: "js_string \<Rightarrow> (bool \<times> nat \<times> js_string) option" where
  "number_exp cs =
     (case cs of
        [] \<Rightarrow> Some (False, 0, [])
      | c # r \<Rightarrow>
          if c = 101 \<or> c = 69 then
            (case r of
               [] \<Rightarrow> None
             | s # r1 \<Rightarrow>
                 (case take_digits 0 0 (if s = 45 \<or> s = 43 then r1 else s # r1) of
                    (e, n, r2) \<Rightarrow> if n = 0 then None else Some (s = 45, e, r2)))
          else Some (False, 0, c # r))"

definition unsigned_number :: "js_string \<Rightarrow> (real \<times> js_string) option" where
  "unsigned_number cs =
     (case number_int cs of
        None \<Rightarrow> None
      | Some (i, r) \<Rightarrow>
          (case number_frac r of
             None \<Rightarrow> None
           | Some (f, r1) \<Rightarrow>
               (case number_exp r1 of
                  None \<Rightarrow> None
                | Some (neg, e, r2) \<Rightarrow>
                    Some (if neg then (real i + f) / 10 ^ e else (real i + f) * 10 ^ e, r2))))"

definition number_token :: "js_string \<Rightarrow> (real \<times> js_string) option" where
  "number_token cs =
     (case cs of
        [] \<Rightarrow> None
      | c # r \<Rightarrow>
          if c = 45 then map_option (\<lambda>(v, rest). (- v, rest)) (unsigned_number r)
          else unsigned_number (c # r))"

fun put_member :: "js_string \<Rightarrow> json \<Rightarrow> (js_string \<times> json) list \<Rightarrow> (js_string \<times> json) list" where
  "put_member k v [] = [(k, v)]"
| "put_member k v (m # ms) = (if fst m = k then (k, v) # ms else m # put_member k v ms)"

fun json_value :: "'f list \<Rightarrow> js_string \<Rightarrow> (json \<times> js_string) option"
and json_elements :: "'f list \<Rightarrow> json list \<Rightarrow> js_string \<Rightarrow> (json \<times> js_string) option"
and json_members :: "'f list \<Rightarrow> (js_string \<times> json) list \<Rightarrow> js_string \<Rightarrow> (json \<times> js_string) option" where
  "json_value [] cs = None"
| "json_value (f # n) cs =
     (case dropWhile json_space cs of
        [] \<Rightarrow> None
      | c # r \<Rightarrow>
          if c = 123 then
            (case dropWhile json_space r of
               [] \<Rightarrow> None
             | c1 # r1 \<Rightarrow> if c1 = 125 then Some (JObject [], r1) else json_members n [] r)
          else if c = 91 then
            (case dropWhile json_space r of
               [] \<Rightarrow> None
             | c1 # r1 \<Rightarrow> if c1 = 93 then Some (JArray [], r1) else json_elements n [] r)
          else if c = 34 then map_option (\<lambda>(s, rest). (JString s, rest)) (string_chars r)
          else if take 4 (c # r) = str ''true'' then Some (JBool True, drop 3 r)
          else if take 5 (c # r) = str ''false'' then Some (JBool False, drop 4 r)
          else if take 4 (c # r) = str ''null'' then Some (JNull, drop 3 r)
          else map_option (\<lambda>(x, rest). (JNumber x, rest)) (number_token (c # r)))"
| "json_elements [] acc cs = None"
| "json_elements (f # n) acc cs =
     (case json_value n cs of
        None \<Rightarrow> None
      | Some (v, r) \<Rightarrow>
          (case dropWhile json_space r of
             [] \<Rightarrow> None
           | c # r1 \<Rightarrow>
               if c = 44 then json_elements n (acc @ [v]) r1
               else if c = 93 then Some (JArray (acc @ [v]), r1)
               else None))"
| "json_members [] acc cs = None"
| "json_members (f # n) acc cs =
     (case dropWhile json_space cs of
        [] \<Rightarrow> None
      | q # r \<Rightarrow>
          if q \<noteq> 34 then None
          else
            (case string_chars r of
               None \<Rightarrow> None
             | Some (k, r1) \<Rightarrow>
                 (case dropWhile json_space r1 of
                    [] \<Rightarrow> None
                  | c # r2 \<Rightarrow>
                      if c \<noteq> 58 then None
                      else
                        (case json_value n r2 of
                           None \<Rightarrow> None
                         | Some (v, r3) \<Rightarrow>
                             (case dropWhile json_space r3 of
                                [] \<Rightarrow> None
                              | c1 # r4 \<Rightarrow>
                                  if c1 = 44 then json_members n (put_member k v acc) r4
                                  else if c1 = 125 then Some (JObject (put_member k v acc), r4)
                                  else None)))))"

definition SyntaxError :: js_error where
  "SyntaxError = JsError (str ''SyntaxError'') (str ''Unexpected token in JSON'')"

definition JSON_parse :: "js_string \<Rightarrow> js_error + json" where
  "JSON_parse s =
     (case json_value (0 # s @ s) s of
        Some (v, rest) \<Rightarrow> if dropWhile json_space rest = [] then Inr v else Inl SyntaxError
      | None \<Rightarrow> Inl SyntaxError)"

text \<open>
  The TypeError of reading a property of \<open>null\<close>, with the text that V8 gives it:
  "Cannot read properties of null (reading 'key')".
\<close>

definition null_TypeError :: "js_string \<Rightarrow> js_error" where
  "null_TypeError key =
     JsError (str ''TypeError'')
       (str ''Cannot read properties of null (reading '' @ [39] @ key @ [39] @ str '')'')"

text \<open>
  \<open>Number\<close> on the text of a \<open>Retry-After\<close> header, for concrete inputs. The header is
  a count of seconds (one or more decimal digits, RFC 9110), which \<open>Number\<close> reads as
  that number, or a date, which it reads as \<open>NaN\<close>.
\<close>

definition Number_of_seconds :: "js_string \<Rightarrow> js_number" where
  "Number_of_seconds s =
     (case take_digits 0 0 s of
        (v, n, rest) \<Rightarrow> if 0 < n \<and> rest = [] then Num (real v) else NaN)"

section \<open>Observations and sample inputs\<close>

text \<open>The code of the LLMError that a call throws, if it throws.\<close>

definition thrown_code :: "LLMError + 'a \<Rightarrow> LLMErrorCode option" where
  "thrown_code r = (case r of Inl e \<Rightarrow> Some (code e) | Inr _ \<Rightarrow> None)"


text \<open>How often a run of \<open>chatWithRetry\<close> called \<open>chat\<close>, and how often it slept.\<close>

fun chat_calls :: "event list \<Rightarrow> nat" where
  "chat_calls [] = 0"
| "chat_calls (Attempt n # es) = Suc (chat_calls es)"
| "chat_calls (Backoff d # es) = chat_calls es"

fun waits :: "event list \<Rightarrow> nat" where
  "waits [] = 0"
| "waits (Attempt n # es) = waits es"
| "waits (Backoff d # es) = Suc (waits es)"

text \<open>The client of the tests, and an error response with a JSON body.\<close>

definition example_config :: LLMConfig where
  "example_config =
     \<lparr>baseURL = str ''http://localhost:11434/v1'', apiKey = None, model = str ''llama3'',
      temperature = None, maxTokens = None, timeout = None, retries = None\<rparr>"

definition example_client :: LLMClient where
  "example_client = new_LLMClient example_config"

definition error_response :: "nat \<Rightarrow> string \<Rightarrow> string \<Rightarrow> http_response" where
  "error_response st txt msg =
     \<lparr>status = st, statusText = str txt, header_Retry_After = None,
      body_error_message = Some (str msg),
      json_body = Inl (JsError (str ''TypeError'') (str ''Body is unusable''))\<rparr>"

text \<open>Responses and runs of the scenarios of the tests and of the specification.\<close>

definition rate_limited :: "string \<Rightarrow> http_response" where
  "rate_limited seconds =
     \<lparr>status = 429, statusText = str ''Too Many Requests'',
      header_Retry_After = Some (str seconds),
      body_error_message = Some (str ''Rate limit exceeded''),
      json_body = Inl (JsError (str ''TypeError'') (str ''Body is unusable''))\<rparr>"

definition ok_response :: "js_string \<Rightarrow> http_response" where
  "ok_response text =
     \<lparr>status = 200, statusText = str ''OK'', header_Retry_After = None,
      body_error_message = None, json_body = Inr (assistant_reply text)\<rparr>"

definition rate_limited_then_ok :: "js_string \<Rightarrow> nat \<Rightarrow> fetch_outcome" where
  "rate_limited_then_ok text n =
     (if n = 0 then Resolved (rate_limited ''2'') else Resolved (ok_response text))"

definition always_unauthorized :: "nat \<Rightarrow> fetch_outcome" where
  "always_unauthorized n = Resolved (error_response 401 ''Unauthorized'' ''Invalid API key'')"

text \<open>
  A reply wrapped in a markdown code fence with a language tag (no tag: the empty
  text), and the reply of the client's test with the response it stands for.
\<close>

definition fenced :: "js_string \<Rightarrow> js_string \<Rightarrow> js_string" where
  "fenced tag s = str ''```'' @ tag @ [10] @ s @ [10] @ str ''```''"

definition alice_reply :: js_string where
  \<open>alice_reply = str ''{"data":{"name":"Alice"},"confidence":90,"confidenceByField":{"name":90}}''\<close>

definition alice :: ExtractionResponse where
  "alice = \<lparr>data = JObject [(str ''name'', JString (str ''Alice''))], confidence = 90,
             confidenceByField = JObject [(str ''name'', JNumber 90)]\<rparr>"






text \<open>The raw objects of the loader's tests, and a schema with a threshold of 80.\<close>

definition raw_field :: "string \<Rightarrow> real option \<Rightarrow> real option \<Rightarrow> RawField" where
  "raw_field ty lo hi =
     \<lparr>raw_type = Some (str ty), raw_optional = False, raw_description = None,
      raw_enum = None, raw_min = lo, raw_max = hi, raw_pattern = None\<rparr>"

definition title_schema :: RawSchema where
  "title_schema =
     \<lparr>raw_fields = Some [(str ''title'', raw_field ''string'' None None)],
      raw_metadata = None, raw_confidence = None\<rparr>"

definition age_schema :: RawSchema where
  "age_schema =
     \<lparr>raw_fields = Some [(str ''age'', raw_field ''number'' (Some 100) (Some 50))],
      raw_metadata = None, raw_confidence = None\<rparr>"


text \<open>A 200 response whose body is not JSON: \<open>json()\<close> throws a SyntaxError.\<close>

definition not_json_200 :: http_response where
  "not_json_200 =
     \<lparr>status = 200, statusText = str ''OK'', header_Retry_After = None,
      body_error_message = None,
      json_body = Inl (JsError (str ''SyntaxError'') (str ''Unexpected token in JSON''))\<rparr>"

text \<open>
  A 429 response whose \<open>Retry-After\<close> header is a date, which RFC 9110 allows beside a
  count of seconds, and a run that meets it once.
\<close>

definition http_date_429 :: http_response where
  "http_date_429 = rate_limited ''Wed, 21 Oct 2015 07:28:00 GMT''"

definition http_date_429_then_ok :: "js_string \<Rightarrow> nat \<Rightarrow> fetch_outcome" where
  "http_date_429_then_ok text n =
     (if n = 0 then Resolved http_date_429 else Resolved (ok_response text))"








section \<open>The completion client: classification of failures\<close>

text \<open>The definitions that running the program on a concrete text unfolds.\<close>

lemmas string_defs = str_def trim_def trimStart_def trimEnd_def is_space_def startsWith_def
  endsWith_def replace_leading_def replace_trailing_fence_def stripCodeFence_def

lemmas JSON_parse_defs = JSON_parse_def json_space_def is_digit_def hex_digit_def
  escape_char_def cons_char_def number_int_def number_frac_def number_exp_def
  unsigned_number_def number_token_def SyntaxError_def

lemma code_handleErrorResponse:
  "code (handleErrorResponse r) =
     (if status r = 401 \<or> status r = 403 then AUTHENTICATION_ERROR
      else if status r = 429 then RATE_LIMIT else API_ERROR)"
  by (simp add: handleErrorResponse_def Let_def)

lemma code_chat_catch:
  "code (chat_catch client e) = (if err_name e = str ''AbortError'' then TIMEOUT else NETWORK_ERROR)"
  by (simp add: chat_catch_def)

lemma isRetryableError_iff:
  "isRetryableError e \<longleftrightarrow> code e \<in> {NETWORK_ERROR, TIMEOUT, RATE_LIMIT, API_ERROR}"
  by (simp add: isRetryableError_def retryableCodes_def)

lemma not_ok_statuses: "\<not> ok r" if "status r = 401 \<or> status r = 403 \<or> status r = 429"
  using that by (auto simp: ok_def)

text \<open>
  What holds of the classification. A rejected \<open>fetch\<close> gives NETWORK_ERROR, or TIMEOUT
  when the rejection is the abort of the timeout; status 401 or 403 gives
  AUTHENTICATION_ERROR, 429 gives RATE_LIMIT and every other status outside 200 to 299
  gives API_ERROR; an assistant message whose content is not JSON, an absent or empty
  array of choices, and an absent message or absent content give INVALID_RESPONSE.
  The retry loop retries exactly NETWORK_ERROR, TIMEOUT, RATE_LIMIT and API_ERROR.
\<close>

lemma failure_classification:
  "(err_name e \<noteq> str ''AbortError'' \<longrightarrow>
      thrown_code (chat client (Rejected e)) = Some NETWORK_ERROR)
   \<and> (err_name e = str ''AbortError'' \<longrightarrow>
      thrown_code (chat client (Rejected e)) = Some TIMEOUT)
   \<and> (status r = 401 \<or> status r = 403 \<longrightarrow>
      thrown_code (chat client (Resolved r)) = Some AUTHENTICATION_ERROR)
   \<and> (status r = 429 \<longrightarrow> thrown_code (chat client (Resolved r)) = Some RATE_LIMIT)
   \<and> (\<not> ok r \<and> status r \<noteq> 401 \<and> status r \<noteq> 403 \<and> status r \<noteq> 429 \<longrightarrow>
      thrown_code (chat client (Resolved r)) = Some API_ERROR)
   \<and> (parse (stripCodeFence (trim t)) = Inl se \<and> t \<noteq> [] \<longrightarrow>
      thrown_code (parseExtractionResponse parse nullError (assistant_reply t)) = Some INVALID_RESPONSE)
   \<and> (choices resp = None \<or> choices resp = Some [] \<longrightarrow>
      thrown_code (parseExtractionResponse parse nullError resp) = Some INVALID_RESPONSE)
   \<and> (choices resp = Some (c # cs) \<and>
        (choice_message c = None \<or> (\<exists>m. choice_message c = Some m \<and> content m = None)) \<longrightarrow>
      thrown_code (parseExtractionResponse parse nullError resp) = Some INVALID_RESPONSE)
   \<and> (isRetryableError err \<longleftrightarrow> code err \<in> {NETWORK_ERROR, TIMEOUT, RATE_LIMIT, API_ERROR})
   \<and> (code err = AUTHENTICATION_ERROR \<or> code err = INVALID_RESPONSE \<longrightarrow> \<not> isRetryableError err)"
proof -
  have rej: "thrown_code (chat client (Rejected e)) = Some (code (chat_catch client e))"
    by (simp add: chat_def thrown_code_def)
  have res: "\<not> ok r \<Longrightarrow> thrown_code (chat client (Resolved r)) = Some (code (handleErrorResponse r))"
    by (simp add: chat_def thrown_code_def)
  have p1: "parse (stripCodeFence (trim t)) = Inl se \<and> t \<noteq> [] \<longrightarrow>
      thrown_code (parseExtractionResponse parse nullError (assistant_reply t)) = Some INVALID_RESPONSE"
    by (simp add: parseExtractionResponse_def assistant_reply_def thrown_code_def parse_failure_def Let_def)
  have p2: "choices resp = None \<or> choices resp = Some [] \<longrightarrow>
      thrown_code (parseExtractionResponse parse nullError resp) = Some INVALID_RESPONSE"
    by (auto simp: parseExtractionResponse_def thrown_code_def no_choices_def)
  have p3: "choices resp = Some (c # cs) \<and>
        (choice_message c = None \<or> (\<exists>m. choice_message c = Some m \<and> content m = None)) \<longrightarrow>
      thrown_code (parseExtractionResponse parse nullError resp) = Some INVALID_RESPONSE"
    by (auto simp: parseExtractionResponse_def thrown_code_def no_content_def)
  show ?thesis
    using rej res p1 p2 p3 not_ok_statuses[of r]
    by (simp add: code_chat_catch code_handleErrorResponse isRetryableError_iff) 
qed

lemma not_json_example:
  "JSON_parse (stripCodeFence (trim (str ''This is not JSON''))) = Inl SyntaxError"
  by (simp add: string_defs JSON_parse_defs)

lemma failure_classification_examples:
  "thrown_code (chat example_client (Rejected (JsError (str ''Error'') (str ''Network failure''))))
     = Some NETWORK_ERROR
   \<and> thrown_code (chat example_client (Rejected (JsError (str ''AbortError'') (str ''This operation was aborted''))))
     = Some TIMEOUT
   \<and> thrown_code (chat example_client (Resolved (error_response 401 ''Unauthorized'' ''Invalid API key'')))
     = Some AUTHENTICATION_ERROR
   \<and> thrown_code (chat example_client (Resolved (error_response 429 ''Too Many Requests'' ''Rate limit exceeded'')))
     = Some RATE_LIMIT
   \<and> thrown_code (chat example_client (Resolved (error_response 500 ''Internal Server Error'' ''boom'')))
     = Some API_ERROR
   \<and> thrown_code (parseExtractionResponse JSON_parse null_TypeError (assistant_reply (str ''This is not JSON'')))
     = Some INVALID_RESPONSE
   \<and> thrown_code (parseExtractionResponse JSON_parse null_TypeError \<lparr>choices = Some []\<rparr>)
     = Some INVALID_RESPONSE
   \<and> thrown_code (parseExtractionResponse JSON_parse null_TypeError
        \<lparr>choices = Some [\<lparr>index = 0, choice_message = None\<rparr>]\<rparr>)
     = Some INVALID_RESPONSE
   \<and> \<not> isRetryableError (handleErrorResponse (error_response 401 ''Unauthorized'' ''Invalid API key''))"
proof -
  have n1: "err_name (JsError (str ''Error'') (str ''Network failure'')) \<noteq> str ''AbortError''"
    by (simp add: str_def)
  have s1: "status (error_response 401 ''Unauthorized'' ''Invalid API key'') = 401"
    and s2: "status (error_response 429 ''Too Many Requests'' ''Rate limit exceeded'') = 429"
    and s3: "status (error_response 500 ''Internal Server Error'' ''boom'') = 500"
    by (simp_all add: error_response_def)
  have s4: "\<not> ok (error_response 500 ''Internal Server Error'' ''boom'')"
    by (simp add: ok_def error_response_def)
  have p: "str ''This is not JSON'' \<noteq> []"
    by (simp add: str_def)
  have c: "code (handleErrorResponse (error_response 401 ''Unauthorized'' ''Invalid API key''))
             = AUTHENTICATION_ERROR"
    by (simp add: handleErrorResponse_def error_response_def)
  have a: "thrown_code (chat example_client (Rejected (JsError (str ''Error'') (str ''Network failure''))))
     = Some NETWORK_ERROR"
    using failure_classification [where e = "JsError (str ''Error'') (str ''Network failure'')"
        and client = example_client] n1 by blast
  have b: "thrown_code (chat example_client (Rejected (JsError (str ''AbortError'') (str ''This operation was aborted''))))
     = Some TIMEOUT"
    using failure_classification [where e = "JsError (str ''AbortError'') (str ''This operation was aborted'')"
        and client = example_client] by simp
  have d: "thrown_code (chat example_client (Resolved (error_response 401 ''Unauthorized'' ''Invalid API key'')))
     = Some AUTHENTICATION_ERROR"
    using failure_classification [where client = example_client
        and r = "error_response 401 ''Unauthorized'' ''Invalid API key''"] s1 by blast
  have f: "thrown_code (chat example_client (Resolved (error_response 429 ''Too Many Requests'' ''Rate limit exceeded'')))
     = Some RATE_LIMIT"
    using failure_classification [where client = example_client
        and r = "error_response 429 ''Too Many Requests'' ''Rate limit exceeded''"] s2 by blast
  have g: "thrown_code (chat example_client (Resolved (error_response 500 ''Internal Server Error'' ''boom'')))
     = Some API_ERROR"
    using failure_classification [where client = example_client
        and r = "error_response 500 ''Internal Server Error'' ''boom''"] s3 s4 by simp
  have h: "thrown_code (parseExtractionResponse JSON_parse null_TypeError (assistant_reply (str ''This is not JSON'')))
     = Some INVALID_RESPONSE"
    using failure_classification [where parse = JSON_parse and nullError = null_TypeError
        and t = "str ''This is not JSON''" and se = SyntaxError] not_json_example p by blast
  have i: "thrown_code (parseExtractionResponse JSON_parse null_TypeError \<lparr>choices = Some []\<rparr>)
     = Some INVALID_RESPONSE"
    using failure_classification [where parse = JSON_parse and nullError = null_TypeError
        and resp = "\<lparr>choices = Some []\<rparr>"] by simp
  have j: "thrown_code (parseExtractionResponse JSON_parse null_TypeError
        \<lparr>choices = Some [\<lparr>index = 0, choice_message = None\<rparr>]\<rparr>)
     = Some INVALID_RESPONSE"
    using failure_classification [where parse = JSON_parse and nullError = null_TypeError
        and resp = "\<lparr>choices = Some [\<lparr>index = 0, choice_message = None\<rparr>]\<rparr>"
        and c = "\<lparr>index = 0, choice_message = None\<rparr>" and cs = "[]"] by simp
  have k: "\<not> isRetryableError (handleErrorResponse (error_response 401 ''Unauthorized'' ''Invalid API key''))"
    using failure_classification [where
        err = "handleErrorResponse (error_response 401 ''Unauthorized'' ''Invalid API key'')"] c
    by blast
  show ?thesis
    using a b d f g h i j k by blast
qed

text \<open>
  A response with a status from 200 to 299 whose body is not JSON: \<open>json()\<close> is called
  inside the \<open>try\<close> block of \<open>chat\<close>, and what it throws is no LLMError, so the \<open>catch\<close>
  block makes a NETWORK_ERROR of it, or a TIMEOUT if it is named \<open>AbortError\<close>.
\<close>

lemma chat_body_not_json:
  "ok r \<Longrightarrow> json_body r = Inl e \<Longrightarrow>
   thrown_code (chat client (Resolved r))
     = Some (if err_name e = str ''AbortError'' then TIMEOUT else NETWORK_ERROR)"
  by (simp add: chat_def thrown_code_def code_chat_catch)

text \<open>
  C1. Malformed JSON is to give INVALID_RESPONSE, which is never retried. For a 200
  response whose body is not JSON the client gives NETWORK_ERROR instead, with the
  message "Network error: ..." of a failed connection, and the retry loop accepts
  that code. The two other places that decode JSON guard it: \<open>handleErrorResponse\<close>
  wraps its own \<open>json()\<close> in a \<open>try\<close>, and \<open>parseExtractionResponse\<close> throws
  INVALID_RESPONSE for a content that is not JSON.
\<close>

theorem chat_2xx_not_json_classified_as_network_error:
  "ok not_json_200
   \<and> chat example_client (Resolved not_json_200)
     = Inl (chat_catch example_client (JsError (str ''SyntaxError'') (str ''Unexpected token in JSON'')))
   \<and> thrown_code (chat example_client (Resolved not_json_200)) = Some NETWORK_ERROR
   \<and> thrown_code (chat example_client (Resolved not_json_200)) \<noteq> Some INVALID_RESPONSE
   \<and> isRetryableError
       (chat_catch example_client (JsError (str ''SyntaxError'') (str ''Unexpected token in JSON'')))"
proof -
  have k: "ok not_json_200"
    by (simp add: ok_def not_json_200_def)
  have c: "chat example_client (Resolved not_json_200)
     = Inl (chat_catch example_client (JsError (str ''SyntaxError'') (str ''Unexpected token in JSON'')))"
    by (simp add: chat_def k) (simp add: not_json_200_def)
  have ce: "code (chat_catch example_client (JsError (str ''SyntaxError'') (str ''Unexpected token in JSON'')))
              = NETWORK_ERROR"
    by (simp add: chat_catch_def str_def)
  show ?thesis
    unfolding c using k ce
    by (simp add: thrown_code_def isRetryableError_def retryableCodes_def)
qed

section \<open>The completion client: the retry loop\<close>

lemma loop_success:
  "attempt \<le> maxRetries (retryConfig client) \<Longrightarrow> chat client (fetches attempt) = Inr response \<Longrightarrow>
   chatWithRetry_loop Number client fetches randoms attempt lastError = ([Attempt attempt], Inr response)"
  by (subst chatWithRetry_loop.simps) simp

lemma loop_final_failure:
  "attempt \<le> maxRetries (retryConfig client) \<Longrightarrow> chat client (fetches attempt) = Inl error \<Longrightarrow>
   \<not> isRetryableError error \<or> attempt = maxRetries (retryConfig client) \<Longrightarrow>
   chatWithRetry_loop Number client fetches randoms attempt lastError
     = ([Attempt attempt], Inl (Some error))"
  by (subst chatWithRetry_loop.simps) auto

lemma loop_retry:
  "attempt < maxRetries (retryConfig client) \<Longrightarrow> chat client (fetches attempt) = Inl error \<Longrightarrow>
   isRetryableError error \<Longrightarrow>
   chatWithRetry_loop Number client fetches randoms attempt lastError
     = (Attempt attempt # Backoff (calculateDelay Number client (randoms attempt) attempt error)
          # fst (chatWithRetry_loop Number client fetches randoms (attempt + 1) (Some error)),
        snd (chatWithRetry_loop Number client fetches randoms (attempt + 1) (Some error)))"
  by (subst chatWithRetry_loop.simps) (simp add: Let_def)

lemma loop_starts_with_attempt:
  "attempt \<le> maxRetries (retryConfig client) \<Longrightarrow>
   \<exists>es. fst (chatWithRetry_loop Number client fetches randoms attempt lastError) = Attempt attempt # es"
  by (subst chatWithRetry_loop.simps) (auto simp: Let_def split: sum.splits)

lemma loop_chat_calls:
  "attempt \<le> maxRetries (retryConfig client) \<Longrightarrow>
   chat_calls (fst (chatWithRetry_loop Number client fetches randoms attempt lastError))
     \<le> maxRetries (retryConfig client) + 1 - attempt"
proof (induction Number client fetches randoms attempt lastError rule: chatWithRetry_loop.induct)
  case (1 Number client fetches randoms attempt lastError)
  show ?case
  proof (cases "chat client (fetches attempt)")
    case (Inr response)
    with "1.prems" show ?thesis by (simp add: loop_success)
  next
    case (Inl error)
    show ?thesis
    proof (cases "isRetryableError error \<and> attempt < maxRetries (retryConfig client)")
      case True
      then have "chat_calls (fst (chatWithRetry_loop Number client fetches randoms (attempt + 1) (Some error)))
                   \<le> maxRetries (retryConfig client) + 1 - (attempt + 1)"
        using "1.IH" [OF "1.prems" Inl] by simp
      moreover from True have "attempt < maxRetries (retryConfig client)" by simp
      ultimately show ?thesis using True Inl by (auto simp: loop_retry Suc_diff_le)
    next
      case False
      with "1.prems" Inl show ?thesis
        by (subst loop_final_failure [where error = error]) auto
    qed
  qed
qed

lemma loop_waits:
  "attempt \<le> maxRetries (retryConfig client) \<Longrightarrow>
   Suc (waits (fst (chatWithRetry_loop Number client fetches randoms attempt lastError)))
     = chat_calls (fst (chatWithRetry_loop Number client fetches randoms attempt lastError))"
proof (induction Number client fetches randoms attempt lastError rule: chatWithRetry_loop.induct)
  case (1 Number client fetches randoms attempt lastError)
  show ?case
  proof (cases "chat client (fetches attempt)")
    case (Inr response)
    with "1.prems" show ?thesis by (simp add: loop_success)
  next
    case (Inl error)
    show ?thesis
    proof (cases "isRetryableError error \<and> attempt < maxRetries (retryConfig client)")
      case True
      then have "Suc (waits (fst (chatWithRetry_loop Number client fetches randoms (attempt + 1) (Some error))))
                   = chat_calls (fst (chatWithRetry_loop Number client fetches randoms (attempt + 1) (Some error)))"
        using "1.IH" [OF "1.prems" Inl] by simp
      with True Inl show ?thesis by (simp add: loop_retry)
    next
      case False
      with "1.prems" Inl show ?thesis
        by (subst (1 2) loop_final_failure [where error = error]) auto
    qed
  qed
qed

text \<open>
  The transitions of the retry loop, with \<open>maxRetries\<close> a count. One call of
  \<open>chatWithRetry\<close> calls \<open>chat\<close> at most \<open>maxRetries + 1\<close> times, and sleeps once between
  two calls. From attempt \<open>n\<close> (within the limit): a call of \<open>chat\<close> that returns ends
  the run with that response and no further attempt; a retryable failure with
  \<open>n < maxRetries\<close> is followed by exactly one wait, of \<open>calculateDelay\<close>, and then
  attempt \<open>n + 1\<close>; a failure that is not retryable, or any failure at
  \<open>n = maxRetries\<close>, ends the run at once with that error.
\<close>

lemma retry_state_machine:
  "chat_calls (fst (chatWithRetry Number client fetches randoms)) \<le> maxRetries (retryConfig client) + 1
   \<and> Suc (waits (fst (chatWithRetry Number client fetches randoms)))
       = chat_calls (fst (chatWithRetry Number client fetches randoms))
   \<and> (n \<le> maxRetries (retryConfig client) \<and> fetches n = Resolved r \<and> ok r
        \<and> json_body r = Inr response \<longrightarrow>
        chatWithRetry_loop Number client fetches randoms n lastError = ([Attempt n], Inr response))
   \<and> (n < maxRetries (retryConfig client) \<and> chat client (fetches n) = Inl error
        \<and> isRetryableError error \<longrightarrow>
        (\<exists>es. chatWithRetry_loop Number client fetches randoms n lastError
           = (Attempt n # Backoff (calculateDelay Number client (randoms n) n error)
                # Attempt (n + 1) # es,
              snd (chatWithRetry_loop Number client fetches randoms (n + 1) (Some error)))
           \<and> Attempt (n + 1) # es
               = fst (chatWithRetry_loop Number client fetches randoms (n + 1) (Some error))))
   \<and> (n \<le> maxRetries (retryConfig client) \<and> chat client (fetches n) = Inl error
        \<and> (\<not> isRetryableError error \<or> n = maxRetries (retryConfig client)) \<longrightarrow>
        chatWithRetry_loop Number client fetches randoms n lastError
          = ([Attempt n], Inl (Some error)))"
proof -
  have a: "chat_calls (fst (chatWithRetry Number client fetches randoms))
             \<le> maxRetries (retryConfig client) + 1"
    using loop_chat_calls [of 0 client Number fetches randoms None]
    by (simp add: chatWithRetry_def)
  have c: "\<exists>es. chatWithRetry_loop Number client fetches randoms n lastError
           = (Attempt n # Backoff (calculateDelay Number client (randoms n) n error)
                # Attempt (n + 1) # es,
              snd (chatWithRetry_loop Number client fetches randoms (n + 1) (Some error)))
           \<and> Attempt (n + 1) # es
               = fst (chatWithRetry_loop Number client fetches randoms (n + 1) (Some error))"
    if "n < maxRetries (retryConfig client)" "chat client (fetches n) = Inl error"
       "isRetryableError error"
  proof -
    from that(1) have "n + 1 \<le> maxRetries (retryConfig client)" by simp
    from loop_starts_with_attempt [OF this, of Number fetches randoms "Some error"]
    obtain es where es: "fst (chatWithRetry_loop Number client fetches randoms (n + 1) (Some error))
                       = Attempt (n + 1) # es" by blast
    with that loop_retry [where attempt = n and client = client and fetches = fetches
        and error = error and Number = Number and randoms = randoms and lastError = lastError]
    show ?thesis by simp
  qed
  have w: "Suc (waits (fst (chatWithRetry Number client fetches randoms)))
       = chat_calls (fst (chatWithRetry Number client fetches randoms))"
    using loop_waits [of 0 client Number fetches randoms None]
    by (simp add: chatWithRetry_def)
  have s: "chatWithRetry_loop Number client fetches randoms n lastError = ([Attempt n], Inr response)"
    if "n \<le> maxRetries (retryConfig client)" "fetches n = Resolved r" "ok r"
       "json_body r = Inr response"
  proof -
    from that have "chat client (fetches n) = Inr response"
      by (simp add: chat_def)
    with that(1) show ?thesis by (rule loop_success)
  qed
  show ?thesis
    using a w c s loop_final_failure [of n client fetches error Number randoms lastError]
    by blast
qed

lemma retry_state_machine_examples:
  "chatWithRetry Number_of_seconds example_client (rate_limited_then_ok (str ''{}'')) (\<lambda>n. 1 / 2)
     = ([Attempt 0, Backoff (Num 2000), Attempt 1], Inr (assistant_reply (str ''{}'')))
   \<and> chatWithRetry Number_of_seconds example_client always_unauthorized (\<lambda>n. 1 / 2)
     = ([Attempt 0],
        Inl (Some (handleErrorResponse (error_response 401 ''Unauthorized'' ''Invalid API key''))))
   \<and> chat_calls (fst (chatWithRetry Number_of_seconds example_client always_unauthorized (\<lambda>n. 1 / 2)))
       \<le> 4"
proof -
  let ?e = "handleErrorResponse (rate_limited ''2'')"
  let ?u = "handleErrorResponse (error_response 401 ''Unauthorized'' ''Invalid API key'')"
  let ?f = "rate_limited_then_ok (str ''{}'')"
  let ?r = "\<lambda>n::nat. 1 / 2 :: real"
  have cfg: "retryConfig example_client = default_retries"
    by (simp add: example_client_def example_config_def new_LLMClient_def)
  have m: "maxRetries (retryConfig example_client) = 3"
    by (simp add: cfg default_retries_def)
  have c0: "chat example_client (?f 0) = Inl ?e"
    by (simp add: rate_limited_then_ok_def chat_def ok_def rate_limited_def)
  have c1: "?f (0 + 1) = Resolved (ok_response (str ''{}'')) \<and> ok (ok_response (str ''{}''))
            \<and> json_body (ok_response (str ''{}'')) = Inr (assistant_reply (str ''{}''))"
    by (simp add: rate_limited_then_ok_def ok_def ok_response_def)
  have re: "isRetryableError ?e"
    by (simp add: isRetryableError_def retryableCodes_def handleErrorResponse_def rate_limited_def)
  have d: "calculateDelay Number_of_seconds example_client (1 / 2) 0 ?e = Num 2000"
    by (simp add: calculateDelay_def handleErrorResponse_def rate_limited_def details_retryAfter_def
        str_def Number_of_seconds_def is_digit_def cfg default_retries_def)
  have cu: "chat example_client (always_unauthorized 0) = Inl ?u"
    by (simp add: always_unauthorized_def chat_def ok_def error_response_def)
  have nu: "\<not> isRetryableError ?u"
    by (simp add: isRetryableError_def retryableCodes_def handleErrorResponse_def error_response_def)
  note s0 = retry_state_machine [where Number = Number_of_seconds and client = example_client
      and fetches = ?f and randoms = ?r and n = 0 and lastError = None and error = ?e]
  note s1 = retry_state_machine [where Number = Number_of_seconds and client = example_client
      and fetches = ?f and randoms = ?r and n = "0 + 1" and lastError = "Some ?e"
      and response = "assistant_reply (str ''{}'')" and r = "ok_response (str ''{}'')"]
  note su = retry_state_machine [where Number = Number_of_seconds and client = example_client
      and fetches = always_unauthorized and randoms = ?r and n = 0 and lastError = None
      and error = ?u]
  have l1: "chatWithRetry_loop Number_of_seconds example_client ?f ?r (0 + 1) (Some ?e)
              = ([Attempt (0 + 1)], Inr (assistant_reply (str ''{}'')))"
    using s1 c1 m by simp
  have l0: "chatWithRetry_loop Number_of_seconds example_client ?f ?r 0 None
              = ([Attempt 0, Backoff (Num 2000), Attempt 1], Inr (assistant_reply (str ''{}'')))"
    using s0 c0 re m d l1 by auto
  have lu: "chatWithRetry_loop Number_of_seconds example_client always_unauthorized ?r 0 None
              = ([Attempt 0], Inl (Some ?u))"
    using su cu nu m by simp
  have b: "chat_calls (fst (chatWithRetry Number_of_seconds example_client always_unauthorized ?r)) \<le> 4"
    using su m by simp
  show ?thesis
    using l0 lu b by (simp add: chatWithRetry_def)
qed

text \<open>
  C3. A 2xx response is to end the call successfully, with no further attempt. When
  the body of a 200 response is not JSON, \<open>json()\<close> throws inside \<open>chat\<close>, the \<open>catch\<close>
  block makes a NETWORK_ERROR of it (the defect of C1), and the loop waits and asks
  again until the attempts are used up: with the default policy and no jitter the
  same 200 response is requested four times, after waits of 1000, 2000 and 4000 ms,
  and the call fails with NETWORK_ERROR.
\<close>

theorem chatWithRetry_retries_2xx_not_json:
  "ok not_json_200
   \<and> chatWithRetry Number_of_seconds example_client (\<lambda>n. Resolved not_json_200) (\<lambda>n. 0)
     = ([Attempt 0, Backoff (Num 1000), Attempt 1, Backoff (Num 2000), Attempt 2,
         Backoff (Num 4000), Attempt 3],
        Inl (Some (chat_catch example_client
          (JsError (str ''SyntaxError'') (str ''Unexpected token in JSON'')))))
   \<and> code (chat_catch example_client
          (JsError (str ''SyntaxError'') (str ''Unexpected token in JSON''))) = NETWORK_ERROR"
proof -
  let ?e = "chat_catch example_client (JsError (str ''SyntaxError'') (str ''Unexpected token in JSON''))"
  let ?f = "\<lambda>n::nat. Resolved not_json_200"
  let ?r = "\<lambda>n::nat. 0 :: real"
  have cfg: "retryConfig example_client = default_retries"
    by (simp add: example_client_def example_config_def new_LLMClient_def)
  have m: "maxRetries (retryConfig example_client) = 3"
    by (simp add: cfg default_retries_def)
  have k: "ok not_json_200"
    by (simp add: ok_def not_json_200_def)
  have c: "chat example_client (?f n) = Inl ?e" for n
    by (simp add: chat_def k) (simp add: not_json_200_def)
  have ce: "code ?e = NETWORK_ERROR"
    by (simp add: chat_catch_def str_def)
  have re: "isRetryableError ?e"
    by (simp add: isRetryableError_def retryableCodes_def ce)
  have d: "calculateDelay Number_of_seconds example_client 0 n ?e = Num (min (1000 * 2 ^ n) 10000)" for n
    by (simp add: calculateDelay_def ce cfg default_retries_def)
  have l3: "chatWithRetry_loop Number_of_seconds example_client ?f ?r 3 (Some ?e)
              = ([Attempt 3], Inl (Some ?e))"
    by (rule loop_final_failure [OF _ c]) (simp_all add: m)
  have l2: "chatWithRetry_loop Number_of_seconds example_client ?f ?r 2 (Some ?e)
              = ([Attempt 2, Backoff (Num 4000), Attempt 3], Inl (Some ?e))"
    using loop_retry [OF _ c re, of 2 Number_of_seconds ?r "Some ?e"] l3 d [of 2]
    by (simp add: m eval_nat_numeral)
  have l1: "chatWithRetry_loop Number_of_seconds example_client ?f ?r 1 (Some ?e)
              = ([Attempt 1, Backoff (Num 2000), Attempt 2, Backoff (Num 4000), Attempt 3],
                 Inl (Some ?e))"
    using loop_retry [OF _ c re, of 1 Number_of_seconds ?r "Some ?e"] l2 d [of 1]
    by (simp add: m eval_nat_numeral)
  have l0: "chatWithRetry_loop Number_of_seconds example_client ?f ?r 0 None
              = ([Attempt 0, Backoff (Num 1000), Attempt 1, Backoff (Num 2000), Attempt 2,
                  Backoff (Num 4000), Attempt 3],
                 Inl (Some ?e))"
    using loop_retry [OF _ c re, of 0 Number_of_seconds ?r None] l1 d [of 0]
    by (simp add: m eval_nat_numeral)
  show ?thesis
    using k l0 ce by (simp add: chatWithRetry_def)
qed

section \<open>The completion client: the backoff delay\<close>

lemma Math_min_le: "Math_min a (Num m) = Num d \<Longrightarrow> d \<le> m"
  by (cases a) auto

text \<open>
  The cases of \<open>calculateDelay\<close>. With \<open>j\<close> a quarter of what \<open>Math.random()\<close> returns,
  so \<open>0 \<le> j < 1/4\<close>, the delay before the retry of attempt \<open>n\<close> is
  \<open>min(maxDelay, initialDelay * backoffFactor ^ n * (1 + j))\<close>, for every error that is
  not a RATE_LIMIT carrying a \<open>Retry-After\<close> text. For a RATE_LIMIT whose \<open>Retry-After\<close>
  reads as the number \<open>r\<close>, the delay is \<open>min(r * 1000, maxDelay)\<close>; for one whose
  \<open>Retry-After\<close> does not read as a number it is \<open>NaN\<close>. A delay that is a number never
  exceeds \<open>maxDelay\<close>. (Numbers are reals here: the rounding of doubles is not
  modelled, and neither is the distribution of \<open>Math.random()\<close>.)
\<close>

lemma calculateDelay_cases:
  "(code error \<noteq> RATE_LIMIT \<or> details_retryAfter error = None \<longrightarrow>
      0 \<le> random \<and> random < 1 \<longrightarrow>
      calculateDelay Number client random n error
        = Num (min (maxDelay (retryConfig client))
            (initialDelay (retryConfig client) * backoffFactor (retryConfig client) ^ n
               * (1 + random / 4)))
      \<and> 0 \<le> random / 4 \<and> random / 4 < 1 / 4)
   \<and> (code error = RATE_LIMIT \<and> details_retryAfter error = Some header \<and> Number header = Num r \<longrightarrow>
      calculateDelay Number client random n error
        = Num (min (r * 1000) (maxDelay (retryConfig client))))
   \<and> (code error = RATE_LIMIT \<and> details_retryAfter error = Some header \<and> Number header = NaN \<longrightarrow>
      calculateDelay Number client random n error = NaN)
   \<and> (calculateDelay Number client random n error = Num d \<longrightarrow> d \<le> maxDelay (retryConfig client))"
proof -
  have a: "calculateDelay Number client random n error
        = Num (min (maxDelay (retryConfig client))
            (initialDelay (retryConfig client) * backoffFactor (retryConfig client) ^ n
               * (1 + random / 4)))"
    if "code error \<noteq> RATE_LIMIT \<or> details_retryAfter error = None"
    using that by (auto simp: calculateDelay_def Let_def min.commute algebra_simps)
  have b: "calculateDelay Number client random n error
        = Num (min (r * 1000) (maxDelay (retryConfig client)))"
    if "code error = RATE_LIMIT" "details_retryAfter error = Some header" "Number header = Num r"
    using that by (simp add: calculateDelay_def)
  have e: "calculateDelay Number client random n error = NaN"
    if "code error = RATE_LIMIT" "details_retryAfter error = Some header" "Number header = NaN"
    using that by (simp add: calculateDelay_def)
  have c: "d \<le> maxDelay (retryConfig client)"
    if "calculateDelay Number client random n error = Num d"
    using that
    by (auto simp: calculateDelay_def Let_def split: option.splits if_splits dest: Math_min_le)
  show ?thesis using a b c e by auto
qed

lemma calculateDelay_examples:
  "calculateDelay Number_of_seconds example_client (1 / 2) 2
       (chat_catch example_client (JsError (str ''AbortError'') (str ''This operation was aborted'')))
     = Num 4500
   \<and> calculateDelay Number_of_seconds example_client (1 / 2) 0 (handleErrorResponse (rate_limited ''2''))
     = Num 2000
   \<and> calculateDelay Number_of_seconds example_client (1 / 2) 0 (handleErrorResponse (rate_limited ''30''))
     = Num 10000"
proof -
  let ?t = "chat_catch example_client (JsError (str ''AbortError'') (str ''This operation was aborted''))"
  have cfg: "retryConfig example_client = default_retries"
    by (simp add: example_client_def example_config_def new_LLMClient_def)
  have t: "code ?t \<noteq> RATE_LIMIT"
    by (simp add: chat_catch_def)
  have "calculateDelay Number_of_seconds example_client (1 / 2) 2 ?t
        = Num (min (maxDelay (retryConfig example_client))
            (initialDelay (retryConfig example_client) * backoffFactor (retryConfig example_client) ^ 2
               * (1 + (1 / 2) / 4)))"
    using calculateDelay_cases [where error = ?t and random = "1 / 2" and n = 2
        and Number = Number_of_seconds and client = example_client] t
    by simp
  then have a: "calculateDelay Number_of_seconds example_client (1 / 2) 2 ?t = Num 4500"
    by (simp add: cfg default_retries_def)
  have r2: "code (handleErrorResponse (rate_limited ''2'')) = RATE_LIMIT
            \<and> details_retryAfter (handleErrorResponse (rate_limited ''2'')) = Some (str ''2'')
            \<and> Number_of_seconds (str ''2'') = Num 2"
    by (simp add: handleErrorResponse_def rate_limited_def details_retryAfter_def str_def
        Number_of_seconds_def is_digit_def)
  have r30: "code (handleErrorResponse (rate_limited ''30'')) = RATE_LIMIT
            \<and> details_retryAfter (handleErrorResponse (rate_limited ''30'')) = Some (str ''30'')
            \<and> Number_of_seconds (str ''30'') = Num 30"
    by (simp add: handleErrorResponse_def rate_limited_def details_retryAfter_def str_def
        Number_of_seconds_def is_digit_def)
  have b: "calculateDelay Number_of_seconds example_client (1 / 2) 0 (handleErrorResponse (rate_limited ''2''))
             = Num 2000"
    using calculateDelay_cases [where error = "handleErrorResponse (rate_limited ''2'')"
        and header = "str ''2''" and r = 2 and Number = Number_of_seconds
        and client = example_client and random = "1 / 2" and n = 0] r2
    by (simp add: cfg default_retries_def)
  have c: "calculateDelay Number_of_seconds example_client (1 / 2) 0 (handleErrorResponse (rate_limited ''30''))
             = Num 10000"
    using calculateDelay_cases [where error = "handleErrorResponse (rate_limited ''30'')"
        and header = "str ''30''" and r = 30 and Number = Number_of_seconds
        and client = example_client and random = "1 / 2" and n = 0] r30
    by (simp add: cfg default_retries_def)
  show ?thesis using a b c by blast
qed

text \<open>
  C2. Every retryable error is to get a delay that one of the two formulas gives,
  never above \<open>maxDelay\<close>. A 429 response may carry its \<open>Retry-After\<close> as a date. The
  client keeps the header's text in \<open>details.retryAfter\<close>, \<open>Number\<close> reads it as \<open>NaN\<close>,
  and so the product with 1000 and \<open>Math.min\<close> give \<open>NaN\<close>: the delay is no number, and
  the loop sleeps for \<open>NaN\<close> milliseconds before it asks again.
\<close>

theorem calculateDelay_http_date_is_NaN:
  "chat example_client (Resolved http_date_429) = Inl (handleErrorResponse http_date_429)
   \<and> code (handleErrorResponse http_date_429) = RATE_LIMIT
   \<and> isRetryableError (handleErrorResponse http_date_429)
   \<and> details_retryAfter (handleErrorResponse http_date_429)
       = Some (str ''Wed, 21 Oct 2015 07:28:00 GMT'')
   \<and> Number_of_seconds (str ''Wed, 21 Oct 2015 07:28:00 GMT'') = NaN
   \<and> calculateDelay Number_of_seconds example_client (1 / 2) 0 (handleErrorResponse http_date_429) = NaN
   \<and> chatWithRetry Number_of_seconds example_client (http_date_429_then_ok (str ''{}'')) (\<lambda>n. 1 / 2)
       = ([Attempt 0, Backoff NaN, Attempt 1], Inr (assistant_reply (str ''{}'')))"
proof -
  let ?e = "handleErrorResponse http_date_429"
  let ?f = "http_date_429_then_ok (str ''{}'')"
  let ?r = "\<lambda>n::nat. 1 / 2 :: real"
  have cfg: "retryConfig example_client = default_retries"
    by (simp add: example_client_def example_config_def new_LLMClient_def)
  have m: "maxRetries (retryConfig example_client) = 3"
    by (simp add: cfg default_retries_def)
  have c: "chat example_client (Resolved http_date_429) = Inl ?e"
    by (simp add: chat_def ok_def http_date_429_def rate_limited_def)
  have co: "code ?e = RATE_LIMIT"
    by (simp add: handleErrorResponse_def http_date_429_def rate_limited_def)
  have re: "isRetryableError ?e"
    by (simp add: isRetryableError_def retryableCodes_def co)
  have ra: "details_retryAfter ?e = Some (str ''Wed, 21 Oct 2015 07:28:00 GMT'')"
    by (simp add: handleErrorResponse_def http_date_429_def rate_limited_def details_retryAfter_def
        str_def)
  have nn: "Number_of_seconds (str ''Wed, 21 Oct 2015 07:28:00 GMT'') = NaN"
    by (simp add: Number_of_seconds_def str_def is_digit_def)
  have d: "calculateDelay Number_of_seconds example_client (1 / 2) 0 ?e = NaN"
    by (simp add: calculateDelay_def co ra nn)
  have c0: "chat example_client (?f 0) = Inl ?e"
    by (simp add: http_date_429_then_ok_def c)
  have c1: "chat example_client (?f (0 + 1)) = Inr (assistant_reply (str ''{}''))"
    by (simp add: http_date_429_then_ok_def chat_def ok_def ok_response_def)
  have l1: "chatWithRetry_loop Number_of_seconds example_client ?f ?r (0 + 1) (Some ?e)
              = ([Attempt (0 + 1)], Inr (assistant_reply (str ''{}'')))"
    by (rule loop_success [where fetches = ?f and attempt = "0 + 1", OF _ c1]) (simp add: m)
  have l0: "chatWithRetry_loop Number_of_seconds example_client ?f ?r 0 None
              = ([Attempt 0, Backoff NaN, Attempt 1], Inr (assistant_reply (str ''{}'')))"
    using loop_retry [where fetches = ?f and attempt = 0, OF _ c0 re, of Number_of_seconds ?r None] l1 d
    by (simp add: m)
  show ?thesis
    using c co re ra nn d l0 by (simp add: chatWithRetry_def)
qed

section \<open>The response parser: code fences\<close>

lemma backtick_not_space [simp]: "\<not> is_space 96"
  by (simp add: is_space_def)

lemma newline_space [simp]: "is_space 10"
  by (simp add: is_space_def)

lemma trimStart_Cons: "\<not> is_space c \<Longrightarrow> trimStart (c # cs) = c # cs"
  by (simp add: trimStart_def)

lemma trimEnd_snoc: "\<not> is_space c \<Longrightarrow> trimEnd (cs @ [c]) = cs @ [c]"
  by (simp add: trimEnd_def)

lemma trimEnd_snoc_space: "is_space c \<Longrightarrow> trimEnd (cs @ [c]) = trimEnd cs"
  by (simp add: trimEnd_def)

lemma trimStart_snoc_space:
  "is_space c \<Longrightarrow> trimStart (cs @ [c]) = (if trimStart cs = [] then [] else trimStart cs @ [c])"
  by (induction cs) (auto simp: trimStart_def)

lemma trimEnd_Nil [simp]: "trimEnd [] = []"
  by (simp add: trimEnd_def)

lemma trim_snoc_space: "is_space c \<Longrightarrow> trim (s @ [c]) = trim s"
  by (simp add: trim_def trimStart_snoc_space trimEnd_snoc_space)

lemma startsWith_append [simp]: "startsWith (p @ rest) p"
  by (simp add: startsWith_def)

lemma startsWith_prefix: "startsWith s (p @ q) \<Longrightarrow> startsWith s p"
proof -
  assume "startsWith s (p @ q)"
  then have "take (length p) (take (length (p @ q)) s) = take (length p) (p @ q)"
    by (simp add: startsWith_def)
  then show ?thesis
    by (simp add: startsWith_def min_def)
qed

lemma replace_leading_append [simp]: "replace_leading p (p @ rest) = dropWhile is_space rest"
  by (simp add: replace_leading_def)

lemma trim_fenced: "trim (fenced tag s) = fenced tag s"
proof -
  define x where "x = str ''``'' @ tag @ [10] @ s @ [10] @ str ''``''"
  have f: "fenced tag s = 96 # x @ [96]"
    by (simp add: fenced_def str_def x_def)
  have "trimStart (96 # x @ [96]) = 96 # x @ [96]"
    by (rule trimStart_Cons) simp
  moreover have "trimEnd ((96 # x) @ [96]) = (96 # x) @ [96]"
    by (rule trimEnd_snoc) simp
  ultimately show ?thesis
    by (simp add: trim_def f)
qed

lemma dropWhile_space_snoc_fence:
  "dropWhile is_space (s @ 10 # str ''```'') = trimStart (s @ [10]) @ str ''```''"
proof -
  have "dropWhile is_space ((s @ [10]) @ str ''```'') = trimStart (s @ [10]) @ str ''```''"
    unfolding trimStart_def
    by (subst dropWhile_append) (auto simp: str_def dropWhile_eq_Nil_conv)
  then show ?thesis by simp
qed

lemma replace_trailing_fence_append:
  "replace_trailing_fence (x @ str ''```'') = trimEnd x"
  by (simp add: replace_trailing_fence_def endsWith_def str_def)

lemma stripCodeFence_fenced_json:
  "stripCodeFence (fenced (str ''json'') s) = trim s"
proof -
  have f: "fenced (str ''json'') s = str ''```json'' @ 10 # s @ 10 # str ''```''"
    by (simp add: fenced_def str_def)
  have "replace_leading (str ''```json'') (fenced (str ''json'') s)
          = trimStart (s @ [10]) @ str ''```''"
    by (simp add: f dropWhile_space_snoc_fence)
  then show ?thesis
    by (simp add: stripCodeFence_def replace_trailing_fence_append trim_snoc_space f flip: trim_def)
qed

lemma stripCodeFence_fenced_plain:
  "stripCodeFence (fenced [] s) = trim s"
proof -
  have f: "fenced [] s = str ''```'' @ 10 # s @ 10 # str ''```''"
    by (simp add: fenced_def)
  have nsw: "\<not> startsWith (fenced [] s) (str ''```json'')"
    by (simp add: fenced_def startsWith_def str_def)
  have "replace_leading (str ''```'') (fenced [] s)
          = trimStart (s @ [10]) @ str ''```''"
    by (simp add: f dropWhile_space_snoc_fence)
  then show ?thesis
    using nsw
    by (simp add: stripCodeFence_def replace_trailing_fence_append trim_snoc_space flip: trim_def)
       (simp add: f)
qed

lemma stripCodeFence_unfenced:
  "\<not> startsWith s (str ''```'') \<Longrightarrow> stripCodeFence s = s"
proof -
  assume a: "\<not> startsWith s (str ''```'')"
  have "str ''```json'' = str ''```'' @ str ''json''"
    by (simp add: str_def)
  with a have "\<not> startsWith s (str ''```json'')"
    using startsWith_prefix [of s "str ''```''" "str ''json''"] by auto
  with a show ?thesis by (simp add: stripCodeFence_def)
qed

lemma fenced_not_Nil [simp]: "fenced tag s \<noteq> []"
  by (simp add: fenced_def str_def)

lemma parse_reply_nonempty:
  "text \<noteq> [] \<Longrightarrow>
   parseExtractionResponse parse nullError (assistant_reply text)
     = (case (case parse (stripCodeFence (trim text)) of
                Inl e \<Rightarrow> Inl e
              | Inr parsed \<Rightarrow> check_parsed nullError parsed) of
          Inl e \<Rightarrow> Inl (parse_failure (stripCodeFence (trim text)) e)
        | Inr r \<Rightarrow> Inr r)"
  by (simp add: parseExtractionResponse_def assistant_reply_def Let_def)

text \<open>
  The two fences that the parser strips. For every text \<open>s\<close> that is not empty and
  whose trimmed form does not itself begin with three backticks (every JSON text is
  such a text), the reply that wraps \<open>s\<close> in a fence tagged \<open>json\<close> and the reply that
  wraps it in a fence without a tag are parsed to the same ExtractionResponse, or the
  same error, as \<open>s\<close> alone, whatever \<open>JSON.parse\<close> does.
\<close>

lemma fence_stripping_json_or_untagged:
  assumes "s \<noteq> []" and "\<not> startsWith (trim s) (str ''```'')"
  shows "parseExtractionResponse parse nullError (assistant_reply (fenced (str ''json'') s))
           = parseExtractionResponse parse nullError (assistant_reply s)
         \<and> parseExtractionResponse parse nullError (assistant_reply (fenced [] s))
           = parseExtractionResponse parse nullError (assistant_reply s)"
proof -
  have u: "stripCodeFence (trim s) = trim s"
    using assms(2) by (rule stripCodeFence_unfenced)
  have j: "stripCodeFence (trim (fenced (str ''json'') s)) = stripCodeFence (trim s)"
    by (simp add: trim_fenced stripCodeFence_fenced_json u)
  have p: "stripCodeFence (trim (fenced [] s)) = stripCodeFence (trim s)"
    by (simp add: trim_fenced stripCodeFence_fenced_plain u)
  show ?thesis
    by (simp only: parse_reply_nonempty [OF assms(1)] parse_reply_nonempty [OF fenced_not_Nil] j p)
qed

lemma alice_reply_parses:
  "parseExtractionResponse JSON_parse null_TypeError (assistant_reply alice_reply) = Inr alice"
  by (simp add: parse_reply_nonempty alice_reply_def alice_def string_defs JSON_parse_defs
      check_parsed_def)

lemma fence_stripping_examples:
  "parseExtractionResponse JSON_parse null_TypeError
     (assistant_reply (fenced (str ''json'') alice_reply)) = Inr alice
   \<and> parseExtractionResponse JSON_parse null_TypeError
     (assistant_reply (fenced [] alice_reply)) = Inr alice"
proof -
  have "alice_reply \<noteq> []" and "\<not> startsWith (trim alice_reply) (str ''```'')"
    by (simp_all add: alice_reply_def string_defs)
  from fence_stripping_json_or_untagged [OF this, of JSON_parse null_TypeError]
  show ?thesis by (simp add: alice_reply_parses)
qed

text \<open>
  C5. A reply in a fence with a language tag is to be parsed as its body is. The
  parser has a branch for the tag \<open>json\<close> and one for three backticks alone, under the
  comment "Remove markdown code blocks if present". For the tag \<open>js\<close> the second
  branch removes the backticks and leaves the tag in front of the body: \<open>JSON.parse\<close>
  rejects the text, and the parser throws INVALID_RESPONSE where the body alone is
  parsed to a response.
\<close>

theorem fence_with_other_tag_not_stripped:
  \<open>parseExtractionResponse JSON_parse null_TypeError
     (assistant_reply (fenced (str ''js'') (str ''{"data":{},"confidence":1,"confidenceByField":{}}'')))
     = Inl (parse_failure (str ''js\<newline>{"data":{},"confidence":1,"confidenceByField":{}}'') SyntaxError)
   \<and> parseExtractionResponse JSON_parse null_TypeError
     (assistant_reply (str ''{"data":{},"confidence":1,"confidenceByField":{}}''))
     = Inr \<lparr>data = JObject [], confidence = 1, confidenceByField = JObject []\<rparr>
   \<and> parseExtractionResponse JSON_parse null_TypeError
     (assistant_reply (fenced (str ''js'') (str ''{"data":{},"confidence":1,"confidenceByField":{}}'')))
     \<noteq> parseExtractionResponse JSON_parse null_TypeError
     (assistant_reply (str ''{"data":{},"confidence":1,"confidenceByField":{}}''))\<close>
  by (simp add: parse_reply_nonempty fenced_def string_defs JSON_parse_defs check_parsed_def)

section \<open>The response parser: the contract\<close>
















section \<open>The response parser: empty content\<close>

text \<open>
  C10. A response whose first choice carries a message with empty content is rejected
  with the same LLMError as one whose message, or whose content, is absent: code
  INVALID_RESPONSE, "No content in LLM response", no details. The result is the same
  for every \<open>JSON.parse\<close>: the empty content is never given to it, so no error of the
  decoder can come out.
\<close>

theorem empty_content_is_no_content:
  "parseExtractionResponse parse nullError
     \<lparr>choices = Some (\<lparr>index = i, choice_message = Some \<lparr>role = r, content = Some []\<rparr>\<rparr> # cs)\<rparr>
     = Inl no_content
   \<and> parseExtractionResponse parse nullError
     \<lparr>choices = Some (\<lparr>index = i, choice_message = Some \<lparr>role = r, content = None\<rparr>\<rparr> # cs)\<rparr>
     = Inl no_content
   \<and> parseExtractionResponse parse nullError
     \<lparr>choices = Some (\<lparr>index = i, choice_message = None\<rparr> # cs)\<rparr>
     = Inl no_content
   \<and> code no_content = INVALID_RESPONSE
   \<and> message no_content = str ''No content in LLM response''
   \<and> details no_content = None"
  by (simp add: parseExtractionResponse_def no_content_def)

section \<open>The threshold decision\<close>





section \<open>The prompt builder\<close>


lemma startsWith_Cons [simp]: "startsWith (x # xs) (c # q) \<longleftrightarrow> x = c \<and> startsWith xs q"
  by (auto simp: startsWith_def)

lemma startsWith_Nil [simp]: "startsWith s []"
  by (simp add: startsWith_def)

lemma startsWith_Nil_left [simp]: "startsWith [] p \<longleftrightarrow> p = []"
  by (auto simp: startsWith_def)

lemma startsWith_refl [simp]: "startsWith s s"
  by (simp add: startsWith_def)









































section \<open>Schema validation\<close>

lemma field_problem_iff:
  "field_problem valid_pattern (name, f) \<noteq> None \<longleftrightarrow> field_defect valid_pattern f"
  by (auto simp: field_problem_def field_defect_def split: option.splits)

lemma first_problem_iff:
  "first_problem valid_pattern entries \<noteq> None
     \<longleftrightarrow> (\<exists>entry \<in> set entries. field_defect valid_pattern (snd entry))"
proof (induction entries)
  case Nil
  show ?case by simp
next
  case (Cons entry entries)
  obtain name f where e: "entry = (name, f)" by (cases entry)
  show ?case
  proof (cases "field_problem valid_pattern (name, f)")
    case None
    with field_problem_iff [of valid_pattern name f] have "\<not> field_defect valid_pattern f"
      by simp
    with None Cons.IH e show ?thesis by simp
  next
    case (Some err)
    with field_problem_iff [of valid_pattern name f] have "field_defect valid_pattern f"
      by simp
    with Some e show ?thesis by simp
  qed
qed

lemma validateSchema_iff:
  "validateSchema valid_pattern malformed raw \<noteq> None \<longleftrightarrow>
     (raw_fields raw = None \<or> raw_fields raw = Some []
      \<or> (\<exists>entries. raw_fields raw = Some entries
            \<and> (\<exists>entry \<in> set entries. field_defect valid_pattern (snd entry)))
      \<or> (\<exists>m. raw_metadata raw = Some m \<and> malformed m))"
proof (cases "raw_fields raw")
  case None
  then show ?thesis by (simp add: validateSchema_def)
next
  case (Some entries)
  note fs = Some
  show ?thesis
  proof (cases entries)
    case Nil
    with fs show ?thesis by (simp add: validateSchema_def)
  next
    case (Cons entry rest)
    show ?thesis
    proof (cases "first_problem valid_pattern entries")
      case None
      with first_problem_iff [of valid_pattern entries]
      have "\<not> (\<exists>entry \<in> set entries. field_defect valid_pattern (snd entry))" by simp
      with None fs Cons show ?thesis
        by (auto simp: validateSchema_def split: option.splits)
    next
      case (Some err)
      with first_problem_iff [of valid_pattern entries]
      have "\<exists>entry \<in> set entries. field_defect valid_pattern (snd entry)" by simp
      with Some fs Cons show ?thesis
        by (auto simp: validateSchema_def)
    qed
  qed
qed

text \<open>
  C9. For every raw object, validation (as \<open>loadSchemaFromObject\<close> runs it, and
  \<open>parseSchema\<close> on the object that its text decodes to) fails with a SchemaError
  exactly when the \<open>fields\<close> are missing or empty, or some field has a defect: no
  \<open>type\<close>, an \<open>enum\<close> that is empty, a \<open>min\<close> above the \<open>max\<close>, or a \<open>pattern\<close> that is
  not a valid regular expression; or when the metadata is malformed. It is a total
  function of the raw object: in every other case it returns that object, unchanged.
\<close>

theorem validateSchema_fails_exactly:
  "((\<exists>e. loadSchemaFromObject valid_pattern malformed raw = Inl e) \<longleftrightarrow>
      (raw_fields raw = None \<or> raw_fields raw = Some []
       \<or> (\<exists>entries. raw_fields raw = Some entries
             \<and> (\<exists>entry \<in> set entries. field_defect valid_pattern (snd entry)))
       \<or> (\<exists>m. raw_metadata raw = Some m \<and> malformed m)))
   \<and> ((\<exists>e. loadSchemaFromObject valid_pattern malformed raw = Inl e)
        \<or> loadSchemaFromObject valid_pattern malformed raw = Inr raw)
   \<and> (parse jsonString = Inr raw \<longrightarrow>
        parseSchema parse valid_pattern malformed jsonString
          = loadSchemaFromObject valid_pattern malformed raw)
   \<and> (field_defect valid_pattern f \<longleftrightarrow>
        (raw_type f = None \<or> raw_enum f = Some []
         \<or> (\<exists>lo hi. raw_min f = Some lo \<and> raw_max f = Some hi \<and> lo > hi)
         \<or> (\<exists>p. raw_pattern f = Some p \<and> \<not> valid_pattern p)))"
proof -
  have a: "(\<exists>e. loadSchemaFromObject valid_pattern malformed raw = Inl e)
             \<longleftrightarrow> validateSchema valid_pattern malformed raw \<noteq> None"
    by (simp add: loadSchemaFromObject_def split: option.splits)
  have b: "(\<exists>e. loadSchemaFromObject valid_pattern malformed raw = Inl e)
        \<or> loadSchemaFromObject valid_pattern malformed raw = Inr raw"
    by (simp add: loadSchemaFromObject_def split: option.splits)
  have c: "parse jsonString = Inr raw \<longrightarrow>
        parseSchema parse valid_pattern malformed jsonString
          = loadSchemaFromObject valid_pattern malformed raw"
    by (simp add: parseSchema_def loadSchemaFromObject_def)
  have d: "(\<exists>e. loadSchemaFromObject valid_pattern malformed raw = Inl e) \<longleftrightarrow>
      (raw_fields raw = None \<or> raw_fields raw = Some []
       \<or> (\<exists>entries. raw_fields raw = Some entries
             \<and> (\<exists>entry \<in> set entries. field_defect valid_pattern (snd entry)))
       \<or> (\<exists>m. raw_metadata raw = Some m \<and> malformed m))"
    by (simp only: a validateSchema_iff)
  have f: "field_defect valid_pattern f \<longleftrightarrow>
        (raw_type f = None \<or> raw_enum f = Some []
         \<or> (\<exists>lo hi. raw_min f = Some lo \<and> raw_max f = Some hi \<and> lo > hi)
         \<or> (\<exists>p. raw_pattern f = Some p \<and> \<not> valid_pattern p))"
    by (simp only: field_defect_def)
  show ?thesis
    by (intro conjI d b c f)
qed

theorem validateSchema_fails_exactly_witness:
  "loadSchemaFromObject (\<lambda>p. True) (\<lambda>m. False) title_schema = Inr title_schema
   \<and> (\<exists>e. loadSchemaFromObject (\<lambda>p. True) (\<lambda>m. False) age_schema = Inl e)
   \<and> (\<exists>e. loadSchemaFromObject (\<lambda>p. True) (\<lambda>m. False)
          \<lparr>raw_fields = None, raw_metadata = None, raw_confidence = None\<rparr> = Inl e)"
proof -
  note v = validateSchema_fails_exactly [where valid_pattern = "\<lambda>p. True" and malformed = "\<lambda>m. False"]
  have t: "\<not> field_defect (\<lambda>p. True) (raw_field ''string'' None None)"
    by (simp add: field_defect_def raw_field_def)
  have g: "field_defect (\<lambda>p. True) (raw_field ''number'' (Some 100) (Some 50))"
    by (simp add: field_defect_def raw_field_def)
  have n1: "\<not> (\<exists>e. loadSchemaFromObject (\<lambda>p. True) (\<lambda>m. False) title_schema = Inl e)"
    using v [of title_schema, THEN conjunct1] t by (simp add: title_schema_def)
  have 1: "loadSchemaFromObject (\<lambda>p. True) (\<lambda>m. False) title_schema = Inr title_schema"
    using v [of title_schema, THEN conjunct2, THEN conjunct1] n1 by blast
  have 2: "\<exists>e. loadSchemaFromObject (\<lambda>p. True) (\<lambda>m. False) age_schema = Inl e"
    using v [of age_schema, THEN conjunct1] g by (simp add: age_schema_def)
  have 3: "\<exists>e. loadSchemaFromObject (\<lambda>p. True) (\<lambda>m. False)
          \<lparr>raw_fields = None, raw_metadata = None, raw_confidence = None\<rparr> = Inl e"
    using v [of "\<lparr>raw_fields = None, raw_metadata = None, raw_confidence = None\<rparr>", THEN conjunct1]
    by simp
  show ?thesis using 1 2 3 by blast
qed

end
